theory Spec2Isabelle
  imports Complex_Main "HOL-Library.Signed_Division"
begin

section \<open>Online network session controller of Little Navmap\<close>

text \<open>
  A shallow embedding of \<^verbatim>\<open>OnlinedataController\<close> (\<^verbatim>\<open>src/unnamed/part_000\<close>): the
  chained download state machine, the re-poll timer, the aircraft cache with its
  de-duplication against simulator traffic, and the facility display sizes.

  The controller is one C++ object; here it is one record that every slot takes and
  returns. The collaborators that live outside the file (the \<^verbatim>\<open>OnlinedataManager\<close>
  parser and store, the geometry of \<^verbatim>\<open>atools::geo::Pos\<close>, the rectangle cache
  template) are parameters: records of functions over abstract types, so that every
  theorem holds for whatever they compute. Log output (\<^verbatim>\<open>qDebug\<close>, \<^verbatim>\<open>qWarning\<close>) is
  not part of the state.
\<close>

subsection \<open>Enumerations\<close>

datatype State =
  NONE | DOWNLOADING_STATUS | DOWNLOADING_WHAZZUP | DOWNLOADING_TRANSCEIVERS
  | DOWNLOADING_WHAZZUP_SERVERS

datatype OnlineNetwork =
  ONLINE_NONE | ONLINE_VATSIM | ONLINE_IVAO | ONLINE_PILOTEDGE | ONLINE_CUSTOM_STATUS
  | ONLINE_CUSTOM

datatype OnlineFormat =
  ONLINE_FORMAT_VATSIM | ONLINE_FORMAT_VATSIM_JSON | ONLINE_FORMAT_IVAO
  | ONLINE_FORMAT_IVAO_JSON

datatype Format = UNKNOWN | VATSIM | IVAO | VATSIM_JSON3 | IVAO_JSON2

text \<open>The facility types of \<^verbatim>\<open>atools::fs::online::fac\<close>, as the switch of
  \<^verbatim>\<open>updateAtcSizes\<close> lists them.\<close>

datatype FacilityType =
  fac_UNKNOWN | fac_OBSERVER | fac_FLIGHT_INFORMATION | fac_DELIVERY | fac_GROUND
  | fac_TOWER | fac_APPROACH | fac_ACC | fac_DEPARTURE

fun convertFormat :: "OnlineFormat \<Rightarrow> Format" where
  "convertFormat ONLINE_FORMAT_VATSIM = VATSIM"
| "convertFormat ONLINE_FORMAT_VATSIM_JSON = VATSIM_JSON3"
| "convertFormat ONLINE_FORMAT_IVAO = IVAO"
| "convertFormat ONLINE_FORMAT_IVAO_JSON = IVAO_JSON2"

subsection \<open>Constants and machine arithmetic\<close>

definition MIN_SERVER_DOWNLOAD_INTERVAL_MIN :: int where
  "MIN_SERVER_DOWNLOAD_INTERVAL_MIN = 15"

definition MIN_TRANSCEIVER_DOWNLOAD_INTERVAL_MIN :: int where
  "MIN_TRANSCEIVER_DOWNLOAD_INTERVAL_MIN = 5"

definition MIN_RELOAD_TIME_SECONDS :: int where
  "MIN_RELOAD_TIME_SECONDS = 15"

text \<open>A C++ \<^verbatim>\<open>int\<close> is 32 bits wide. Values are integers; where the source multiplies or
  negates, the result is reduced to the two's complement range.\<close>

definition wrap32 :: "int \<Rightarrow> int" where
  "wrap32 x = (x + 2147483648) mod 4294967296 - 2147483648"

text \<open>Points in time (\<^verbatim>\<open>QDateTime\<close>) are milliseconds since the epoch.\<close>

definition addSecs :: "int \<Rightarrow> int \<Rightarrow> int" where
  "addSecs t secs = t + secs * 1000"

subsection \<open>Configuration\<close>

text \<open>The values the controller reads from \<^verbatim>\<open>OptionData\<close> and \<^verbatim>\<open>Settings\<close>.\<close>

record OptionData =
  onlineNetwork :: OnlineNetwork
  onlineFormat :: OnlineFormat
  onlineStatusUrl :: string
  onlineWhazzupUrl :: string
  onlineTransceiverUrl :: string
  onlineVatsimTransceiverReload :: int
  onlineReload :: "OnlineNetwork \<Rightarrow> int"
  noUserAgent :: bool
  displayOnlineObserver :: int
  displayOnlineFir :: int
  displayOnlineClearance :: int
  displayOnlineGround :: int
  displayOnlineTower :: int
  displayOnlineApproach :: int
  displayOnlineArea :: int
  displayOnlineDeparture :: int

fun getNetworkTranslated :: "OptionData \<Rightarrow> string" where
  "getNetworkTranslated od =
     (case onlineNetwork od of
        ONLINE_NONE \<Rightarrow> []
      | ONLINE_VATSIM \<Rightarrow> ''VATSIM''
      | ONLINE_IVAO \<Rightarrow> ''IVAO''
      | ONLINE_PILOTEDGE \<Rightarrow> ''PilotEdge''
      | ONLINE_CUSTOM_STATUS \<Rightarrow> ''Custom Network''
      | ONLINE_CUSTOM \<Rightarrow> ''Custom Network'')"

fun getNetwork :: "OptionData \<Rightarrow> string" where
  "getNetwork od =
     (case onlineNetwork od of
        ONLINE_NONE \<Rightarrow> []
      | ONLINE_VATSIM \<Rightarrow> ''VATSIM''
      | ONLINE_IVAO \<Rightarrow> ''IVAO''
      | ONLINE_PILOTEDGE \<Rightarrow> ''PilotEdge''
      | ONLINE_CUSTOM_STATUS \<Rightarrow> ''Custom Network''
      | ONLINE_CUSTOM \<Rightarrow> ''Custom Network'')"

subsection \<open>Collaborators\<close>

text \<open>The \<^verbatim>\<open>OnlinedataManager\<close>, with state \<open>'m\<close>: parsing changes it, getters read it.
  \<^verbatim>\<open>uncompress\<close> stands for gzip decompression and decoding of the payload.\<close>

record ('m, 'pos) Manager =
  uncompress :: "string \<Rightarrow> bool \<Rightarrow> string"
  readFromStatus :: "string \<Rightarrow> 'm \<Rightarrow> 'm"
  readFromTransceivers :: "string \<Rightarrow> 'm \<Rightarrow> 'm"
  readFromWhazzup :: "string \<Rightarrow> Format \<Rightarrow> int option \<Rightarrow> 'm \<Rightarrow> bool \<times> 'm"
  readServersFromWhazzup :: "string \<Rightarrow> Format \<Rightarrow> int option \<Rightarrow> 'm \<Rightarrow> 'm"
  getWhazzupUrlFromStatus :: "'m \<Rightarrow> string \<times> bool \<times> bool"
  getWhazzupVoiceUrlFromStatus :: "'m \<Rightarrow> string"
  getMessageFromStatus :: "'m \<Rightarrow> string"
  getLastUpdateTimeFromWhazzup :: "'m \<Rightarrow> int option"
  getReloadMinutesFromWhazzup :: "'m \<Rightarrow> int"
  getClientCallsignAndPosMap :: "'m \<Rightarrow> (string \<times> 'pos) list \<Rightarrow> (string \<times> 'pos) list"
  resetForNewOptions :: "'m \<Rightarrow> 'm"
  clearData :: "'m \<Rightarrow> 'm"
  setAtcSize :: "(FacilityType \<times> int) list \<Rightarrow> 'm \<Rightarrow> 'm"

subsection \<open>Controller state\<close>

text \<open>Of the \<^verbatim>\<open>HttpDownloader\<close> and the \<^verbatim>\<open>QTimer\<close> the controller owns, the model keeps
  what the controller sets and reads: the URL, whether a download is in flight
  (\<^verbatim>\<open>isDownloading\<close>; \<^verbatim>\<open>cancelDownload\<close> ends it), the user agent; whether the timer
  runs, and its interval in milliseconds.\<close>

record HttpDownloader =
  url :: string
  downloading :: bool
  userAgentShort :: string

record QTimer =
  timerActive :: bool
  timerInterval :: int

text \<open>Slots queued with \<^verbatim>\<open>QTimer::singleShot\<close>, each with its delay in milliseconds.\<close>

datatype Deferred = StartDownload | ShowMessageDialog | StartProcessing

datatype Signal =
  onlineServersUpdated bool bool
  | onlineClientAndAtcUpdated bool bool
  | onlineNetworkChanged

text \<open>A translated text with the values given to its \<^verbatim>\<open>%1\<close>, \<^verbatim>\<open>%2\<close> place markers.\<close>

record StatusMessage =
  messageText :: "string \<times> string list"
  messageToolTip :: "string \<times> string list"

record 'pos SimConnectAircraft =
  airplaneRegistration :: string
  position :: 'pos
  onlineShadow :: bool
  debug :: bool

text \<open>The rectangle cache: the aircraft list and, when filled, the rectangle and layer
  it was filled for (\<open>'k\<close>).\<close>

record ('pos, 'k) SimpleRectCache =
  cacheList :: "'pos SimConnectAircraft list"
  cacheKey :: "'k option"

record ('m, 'pos, 'k) Controller =
  currentState :: State
  whazzupUrlFromStatus :: string
  lastUpdateTime :: int
  lastServerDownload :: int
  lastUpdateTimeTransceivers :: "int option"
  clientCallsignAndPosMap :: "(string \<times> 'pos) list"
  aircraftCache :: "('pos, 'k) SimpleRectCache"
  simulatorAiRegistrations :: "(string \<times> 'pos) list"
  downloader :: HttpDownloader
  downloadTimer :: QTimer
  pending :: "(int \<times> Deferred) list"
  signals :: "Signal list"
  statusMessage :: StatusMessage
  manager :: 'm

subsection \<open>Hash tables\<close>

text \<open>\<^verbatim>\<open>QHash\<close> as an association list with one entry per key: \<^verbatim>\<open>insert\<close> replaces the
  value of a key that is present, \<^verbatim>\<open>value\<close> returns a default-constructed value for a
  key that is missing. \<open>hashKeys\<close> is the set of keys of a table; the list that
  \<^verbatim>\<open>QHash::keys()\<close> returns has an order of Qt's own and is not defined here.\<close>

definition hashInsert :: "'a \<Rightarrow> 'b \<Rightarrow> ('a \<times> 'b) list \<Rightarrow> ('a \<times> 'b) list" where
  "hashInsert k v h = (k, v) # filter (\<lambda>e. fst e \<noteq> k) h"

definition hashRemove :: "'a \<Rightarrow> ('a \<times> 'b) list \<Rightarrow> ('a \<times> 'b) list" where
  "hashRemove k h = filter (\<lambda>e. fst e \<noteq> k) h"

definition hashContains :: "('a \<times> 'b) list \<Rightarrow> 'a \<Rightarrow> bool" where
  "hashContains h k = (map_of h k \<noteq> None)"

definition hashValue :: "'b \<Rightarrow> ('a \<times> 'b) list \<Rightarrow> 'a \<Rightarrow> 'b" where
  "hashValue dflt h k = (case map_of h k of None \<Rightarrow> dflt | Some v \<Rightarrow> v)"

definition hashKeys :: "('a \<times> 'b) list \<Rightarrow> 'a set" where
  "hashKeys h = set (map fst h)"

subsection \<open>Facility display sizes\<close>

text \<open>Modelled from the spec: \<^verbatim>\<open>allFacilityTypes()\<close> of the parser library is not in the
  source files; the facility types are a closed enumeration, and it lists all of them.\<close>

definition allFacilityTypes :: "FacilityType list" where
  "allFacilityTypes =
     [fac_UNKNOWN, fac_OBSERVER, fac_FLIGHT_INFORMATION, fac_DELIVERY, fac_GROUND,
      fac_TOWER, fac_APPROACH, fac_ACC, fac_DEPARTURE]"

fun configuredDiameter :: "OptionData \<Rightarrow> FacilityType \<Rightarrow> int" where
  "configuredDiameter od fac_UNKNOWN = - 1"
| "configuredDiameter od fac_OBSERVER = displayOnlineObserver od"
| "configuredDiameter od fac_FLIGHT_INFORMATION = displayOnlineFir od"
| "configuredDiameter od fac_DELIVERY = displayOnlineClearance od"
| "configuredDiameter od fac_GROUND = displayOnlineGround od"
| "configuredDiameter od fac_TOWER = displayOnlineTower od"
| "configuredDiameter od fac_APPROACH = displayOnlineApproach od"
| "configuredDiameter od fac_ACC = displayOnlineArea od"
| "configuredDiameter od fac_DEPARTURE = displayOnlineDeparture od"

text \<open>The loop of \<^verbatim>\<open>updateAtcSizes\<close>; \<open>sdiv\<close> is the division of C++, which truncates
  towards zero.\<close>

fun atcSizeLoop ::
  "OptionData \<Rightarrow> FacilityType list \<Rightarrow> (FacilityType \<times> int) list \<Rightarrow> (FacilityType \<times> int) list"
where
  "atcSizeLoop od [] sizeMap = sizeMap"
| "atcSizeLoop od (t # ts) sizeMap =
     (let diameter = configuredDiameter od t in
      atcSizeLoop od ts
        (hashInsert t (if diameter \<noteq> - 1 then max 1 (diameter sdiv 2) else - 1) sizeMap))"

definition atcSizeMap :: "OptionData \<Rightarrow> (FacilityType \<times> int) list" where
  "atcSizeMap od = atcSizeLoop od allFacilityTypes []"

definition updateAtcSizes ::
  "('m, 'pos) Manager \<Rightarrow> OptionData \<Rightarrow> ('m, 'pos, 'k) Controller \<Rightarrow> ('m, 'pos, 'k) Controller"
where
  "updateAtcSizes M od s = s\<lparr>manager := setAtcSize M (atcSizeMap od) (manager s)\<rparr>"

subsection \<open>Download state machine\<close>

definition cancelDownload :: "HttpDownloader \<Rightarrow> HttpDownloader" where
  "cancelDownload d = d\<lparr>downloading := False\<rparr>"

definition timerStop :: "QTimer \<Rightarrow> QTimer" where
  "timerStop t = t\<lparr>timerActive := False\<rparr>"

definition timerStart :: "QTimer \<Rightarrow> QTimer" where
  "timerStart t = t\<lparr>timerActive := True\<rparr>"

definition setInterval :: "int \<Rightarrow> QTimer \<Rightarrow> QTimer" where
  "setInterval msec t = t\<lparr>timerInterval := msec\<rparr>"

definition singleShot ::
  "int \<Rightarrow> Deferred \<Rightarrow> ('m, 'pos, 'k) Controller \<Rightarrow> ('m, 'pos, 'k) Controller"
where
  "singleShot msec slot s = s\<lparr>pending := pending s @ [(msec, slot)]\<rparr>"

definition emit :: "Signal \<Rightarrow> ('m, 'pos, 'k) Controller \<Rightarrow> ('m, 'pos, 'k) Controller" where
  "emit sig s = s\<lparr>signals := signals s @ [sig]\<rparr>"

definition setUrl :: "string \<Rightarrow> ('m, 'pos, 'k) Controller \<Rightarrow> ('m, 'pos, 'k) Controller" where
  "setUrl u s = s\<lparr>downloader := (downloader s)\<lparr>url := u\<rparr>\<rparr>"

definition setOnlineConnectionStatusMessageText ::
  "string \<times> string list \<Rightarrow> string \<times> string list \<Rightarrow> ('m, 'pos, 'k) Controller
   \<Rightarrow> ('m, 'pos, 'k) Controller"
where
  "setOnlineConnectionStatusMessageText text toolTip s =
     s\<lparr>statusMessage := \<lparr>messageText = text, messageToolTip = toolTip\<rparr>\<rparr>"

text \<open>Modelled from the spec: \<^verbatim>\<open>SimpleRectCache::clear\<close> is not in the source files;
  clearing the cache empties its list and forgets the rectangle it was filled for.\<close>

definition cacheClear :: "('pos, 'k) SimpleRectCache \<Rightarrow> ('pos, 'k) SimpleRectCache" where
  "cacheClear c = c\<lparr>cacheList := [], cacheKey := None\<rparr>"

definition startDownloader :: "('m, 'pos, 'k) Controller \<Rightarrow> ('m, 'pos, 'k) Controller" where
  "startDownloader s = singleShot 0 StartDownload s"

definition stopAllProcesses :: "('m, 'pos, 'k) Controller \<Rightarrow> ('m, 'pos, 'k) Controller" where
  "stopAllProcesses s =
     s\<lparr>downloader := cancelDownload (downloader s),
       downloadTimer := timerStop (downloadTimer s),
       currentState := NONE,
       simulatorAiRegistrations := []\<rparr>"

definition statusBarMessage ::
  "OptionData \<Rightarrow> ('m, 'pos, 'k) Controller \<Rightarrow> ('m, 'pos, 'k) Controller"
where
  "statusBarMessage od s =
     (let net = getNetworkTranslated od in
      if net \<noteq> [] then
        setOnlineConnectionStatusMessageText ([], []) (''Connected to %1.'', [net]) s
      else setOnlineConnectionStatusMessageText ([], []) ([], []) s)"

definition startDownloadTimer ::
  "('m, 'pos) Manager \<Rightarrow> OptionData \<Rightarrow> ('m, 'pos, 'k) Controller \<Rightarrow> ('m, 'pos, 'k) Controller"
where
  "startDownloadTimer M od s =
     (let s1 = s\<lparr>downloadTimer := timerStop (downloadTimer s)\<rparr>;
          net = onlineNetwork od;
          configured = onlineReload od net;
          intervalSeconds =
            (if net = ONLINE_CUSTOM \<or> net = ONLINE_CUSTOM_STATUS then configured
             else if configured = - 1 then
               max (wrap32 (getReloadMinutesFromWhazzup M (manager s1) * 60)) 60
             else max configured MIN_RELOAD_TIME_SECONDS)
      in s1\<lparr>downloadTimer :=
              timerStart (setInterval (wrap32 (intervalSeconds * 1000)) (downloadTimer s1))\<rparr>)"

definition startDownloadInternal ::
  "('m, 'pos) Manager \<Rightarrow> OptionData \<Rightarrow> int \<Rightarrow> ('m, 'pos, 'k) Controller
   \<Rightarrow> ('m, 'pos, 'k) Controller"
where
  "startDownloadInternal M od now s =
     (if downloading (downloader s) \<or> currentState s \<noteq> NONE then s
      else
        let s1 = stopAllProcesses s in
        if onlineNetwork od = ONLINE_NONE then s1
        else
          let statusUrl = onlineStatusUrl od;
              whazzupUrl = onlineWhazzupUrl od;
              s2 = s1\<lparr>whazzupUrlFromStatus := fst (getWhazzupUrlFromStatus M (manager s1))\<rparr>
          in
          if currentState s2 = NONE then
            let transceiverReload =
                  (if onlineVatsimTransceiverReload od = - 1
                   then wrap32 (MIN_TRANSCEIVER_DOWNLOAD_INTERVAL_MIN * 60)
                   else onlineVatsimTransceiverReload od);
                (u, s3) =
                  (if convertFormat (onlineFormat od) = VATSIM_JSON3 \<and>
                      (case lastUpdateTimeTransceivers s2 of
                         None \<Rightarrow> False
                       | Some t \<Rightarrow> t < addSecs now (wrap32 (- transceiverReload)))
                   then (onlineTransceiverUrl od, s2\<lparr>currentState := DOWNLOADING_TRANSCEIVERS\<rparr>)
                   else
                     let s2a =
                           (if \<not> noUserAgent od then
                              s2\<lparr>downloader :=
                                   (downloader s2)\<lparr>userAgentShort := '' Config/'' @ getNetwork od\<rparr>\<rparr>
                            else s2)
                     in
                     if whazzupUrlFromStatus s2a = [] \<and> statusUrl \<noteq> [] then
                       (statusUrl, s2a\<lparr>currentState := DOWNLOADING_STATUS\<rparr>)
                     else if whazzupUrl \<noteq> [] \<or> whazzupUrlFromStatus s2a \<noteq> [] then
                       (if whazzupUrlFromStatus s2a = [] then whazzupUrl
                        else whazzupUrlFromStatus s2a,
                        s2a\<lparr>currentState := DOWNLOADING_WHAZZUP\<rparr>)
                     else ([], s2a))
            in if u \<noteq> [] then startDownloader (setUrl u s3) else s3
          else s2)"

definition startProcessing ::
  "('m, 'pos) Manager \<Rightarrow> OptionData \<Rightarrow> int \<Rightarrow> ('m, 'pos, 'k) Controller
   \<Rightarrow> ('m, 'pos, 'k) Controller"
where
  "startProcessing M od now s = startDownloadInternal M od now s"

text \<open>The updates shared by the branches of \<^verbatim>\<open>downloadFinished\<close> that end a cycle.\<close>

definition finishCycle ::
  "('m, 'pos) Manager \<Rightarrow> OptionData \<Rightarrow> int \<Rightarrow> ('m, 'pos, 'k) Controller
   \<Rightarrow> ('m, 'pos, 'k) Controller"
where
  "finishCycle M od now s = (startDownloadTimer M od s)\<lparr>currentState := NONE, lastUpdateTime := now\<rparr>"

definition clearCaches :: "('m, 'pos, 'k) Controller \<Rightarrow> ('m, 'pos, 'k) Controller" where
  "clearCaches s =
     s\<lparr>aircraftCache := cacheClear (aircraftCache s), simulatorAiRegistrations := []\<rparr>"

definition downloadFinished ::
  "('m, 'pos) Manager \<Rightarrow> OptionData \<Rightarrow> int \<Rightarrow> string \<Rightarrow> string \<Rightarrow> ('m, 'pos, 'k) Controller
   \<Rightarrow> ('m, 'pos, 'k) Controller"
where
  "downloadFinished M od now data u s =
     (if currentState s = DOWNLOADING_STATUS then
        let m1 = readFromStatus M (uncompress M data False) (manager s);
            (whazzupUrl, whazzupGzipped, whazzupJson) = getWhazzupUrlFromStatus M m1;
            s1 = s\<lparr>manager := m1, whazzupUrlFromStatus := whazzupUrl\<rparr>;
            s2 = (if getMessageFromStatus M m1 \<noteq> [] then singleShot 0 ShowMessageDialog s1
                  else s1)
        in
        if whazzupJson then
          startDownloader
            (setUrl (onlineTransceiverUrl od) (s2\<lparr>currentState := DOWNLOADING_TRANSCEIVERS\<rparr>))
        else if whazzupUrlFromStatus s2 \<noteq> [] then
          startDownloader
            (setUrl (whazzupUrlFromStatus s2) (s2\<lparr>currentState := DOWNLOADING_WHAZZUP\<rparr>))
        else finishCycle M od now s2
      else if currentState s = DOWNLOADING_TRANSCEIVERS then
        let s1 = s\<lparr>manager := readFromTransceivers M (uncompress M data True) (manager s)\<rparr>;
            s2 = s1\<lparr>currentState := DOWNLOADING_WHAZZUP, lastUpdateTimeTransceivers := Some now\<rparr>
        in startDownloader (setUrl (whazzupUrlFromStatus s2) s2)
      else if currentState s = DOWNLOADING_WHAZZUP then
        let format = convertFormat (onlineFormat od);
            vatsimJson = (format = VATSIM_JSON3);
            ivaoJson = (format = IVAO_JSON2);
            (accepted, m1) =
              readFromWhazzup M (uncompress M data (ivaoJson \<or> vatsimJson)) format
                (getLastUpdateTimeFromWhazzup M (manager s)) (manager s);
            s1 = s\<lparr>manager := m1\<rparr>
        in
        if accepted then
          let s2 = s1\<lparr>clientCallsignAndPosMap := getClientCallsignAndPosMap M m1 []\<rparr>;
              whazzupVoiceUrlFromStatus = getWhazzupVoiceUrlFromStatus M m1
          in
          if \<not> vatsimJson \<and> \<not> ivaoJson \<and> whazzupVoiceUrlFromStatus \<noteq> [] \<and>
             lastServerDownload s2 < addSecs now (wrap32 (- MIN_SERVER_DOWNLOAD_INTERVAL_MIN * 60))
          then
            startDownloader
              (setUrl whazzupVoiceUrlFromStatus (s2\<lparr>currentState := DOWNLOADING_WHAZZUP_SERVERS\<rparr>))
          else
            statusBarMessage od
              (emit (onlineClientAndAtcUpdated True True)
                 (emit (onlineServersUpdated True True) (clearCaches (finishCycle M od now s2))))
        else finishCycle M od now s1
      else if currentState s = DOWNLOADING_WHAZZUP_SERVERS then
        let s1 = s\<lparr>manager :=
                     readServersFromWhazzup M (uncompress M data False)
                       (convertFormat (onlineFormat od))
                       (getLastUpdateTimeFromWhazzup M (manager s)) (manager s),
                   lastServerDownload := now\<rparr>
        in
        statusBarMessage od
          (emit (onlineServersUpdated True True)
             (emit (onlineClientAndAtcUpdated True True) (clearCaches (finishCycle M od now s1))))
      else s)"

definition downloadFailed ::
  "string \<Rightarrow> int \<Rightarrow> string \<Rightarrow> ('m, 'pos, 'k) Controller \<Rightarrow> ('m, 'pos, 'k) Controller"
where
  "downloadFailed error errorCode u s =
     singleShot (180 * 1000) StartProcessing
       (setOnlineConnectionStatusMessageText (''Online Network Failed'', [])
          (''Download from'' @ [CHR 0x0A, CHR 0x22] @ ''%1'' @ [CHR 0x22, CHR 0x0A] @
           ''failed. Reason:'' @ [CHR 0x0A] @ ''%2'' @ [CHR 0x0A] @
           ''Retrying again in three minutes.'', [u, error])
          (stopAllProcesses s))"

definition optionsChanged ::
  "('m, 'pos) Manager \<Rightarrow> OptionData \<Rightarrow> int \<Rightarrow> ('m, 'pos, 'k) Controller
   \<Rightarrow> ('m, 'pos, 'k) Controller"
where
  "optionsChanged M od now s =
     (let s1 = stopAllProcesses (s\<lparr>manager := resetForNewOptions M (manager s)\<rparr>);
          s2 = s1\<lparr>manager := clearData M (manager s1)\<rparr>;
          s3 = (clearCaches s2)\<lparr>clientCallsignAndPosMap := []\<rparr>;
          s4 = updateAtcSizes M od s3;
          s5 = emit onlineNetworkChanged
                 (emit (onlineServersUpdated True True)
                    (emit (onlineClientAndAtcUpdated True True) s4));
          s6 = statusBarMessage od s5;
          s7 = s6\<lparr>lastUpdateTime := 0, lastServerDownload := 0\<rparr>
      in startDownloadInternal M od now s7)"

subsection \<open>Runs\<close>

text \<open>What can reach the controller: the re-poll timer or a retry firing, the downloader
  delivering a payload or a failure, an option change, and the downloader starting or
  ending a transfer on its own. Each event carries the options and the clock of its
  moment.\<close>

datatype Event =
  EvStartDownloadInternal
  | EvDownloadFinished string string
  | EvDownloadFailed string int string
  | EvOptionsChanged
  | EvDownloaderBusy bool

fun step ::
  "('m, 'pos) Manager \<Rightarrow> OptionData \<times> int \<times> Event \<Rightarrow> ('m, 'pos, 'k) Controller
   \<Rightarrow> ('m, 'pos, 'k) Controller"
where
  "step M (od, now, EvStartDownloadInternal) s = startDownloadInternal M od now s"
| "step M (od, now, EvDownloadFinished data u) s = downloadFinished M od now data u s"
| "step M (od, now, EvDownloadFailed error errorCode u) s = downloadFailed error errorCode u s"
| "step M (od, now, EvOptionsChanged) s = optionsChanged M od now s"
| "step M (od, now, EvDownloaderBusy b) s = s\<lparr>downloader := (downloader s)\<lparr>downloading := b\<rparr>\<rparr>"

text \<open>All states a run passes through, the first one included.\<close>

fun run ::
  "('m, 'pos) Manager \<Rightarrow> (OptionData \<times> int \<times> Event) list \<Rightarrow> ('m, 'pos, 'k) Controller
   \<Rightarrow> ('m, 'pos, 'k) Controller list"
where
  "run M [] s = [s]"
| "run M (e # es) s = s # run M es (step M e s)"

definition jsonFormat :: "OptionData \<Rightarrow> bool" where
  "jsonFormat od =
     (convertFormat (onlineFormat od) = VATSIM_JSON3 \<or> convertFormat (onlineFormat od) = IVAO_JSON2)"

text \<open>The call of \<^verbatim>\<open>readFromWhazzup\<close> as \<^verbatim>\<open>downloadFinished\<close> makes it: whether the
  payload was accepted, and the manager after parsing.\<close>

definition whazzupRead ::
  "('m, 'pos) Manager \<Rightarrow> OptionData \<Rightarrow> string \<Rightarrow> ('m, 'pos, 'k) Controller \<Rightarrow> bool \<times> 'm"
where
  "whazzupRead M od data s =
     readFromWhazzup M
       (uncompress M data
          (convertFormat (onlineFormat od) = IVAO_JSON2 \<or>
           convertFormat (onlineFormat od) = VATSIM_JSON3))
       (convertFormat (onlineFormat od)) (getLastUpdateTimeFromWhazzup M (manager s)) (manager s)"

subsection \<open>Aircraft cache and de-duplication\<close>

text \<open>\<^verbatim>\<open>atools::geo\<close>: the great-circle distance in metres, the validity of a position,
  the position \<^verbatim>\<open>Pos()\<close> that a \<^verbatim>\<open>QHash\<close> returns for a missing key, and the unit
  conversion that fixes the threshold.\<close>

record 'pos Geo =
  distanceMeterTo :: "'pos \<Rightarrow> 'pos \<Rightarrow> real"
  isValid :: "'pos \<Rightarrow> bool"
  defaultPos :: 'pos
  nmToMeter :: "int \<Rightarrow> int"

definition MIN_DISTANCE_DUPLICATE_M :: "'pos Geo \<Rightarrow> int" where
  "MIN_DISTANCE_DUPLICATE_M G = nmToMeter G 30"


text \<open>The database side of the queries: the cache template's \<^verbatim>\<open>updateCache\<close> and
  \<^verbatim>\<open>validate\<close>, the rectangles of \<^verbatim>\<open>splitAtAntiMeridian\<close>, the rows the prepared
  query returns for one rectangle, the conversion of a row into an aircraft, a
  default-constructed aircraft, and the client rows of one callsign.\<close>

record ('m, 'pos, 'k, 'rect, 'layer, 'row) Store =
  updateCache ::
    "('pos, 'k) SimpleRectCache \<Rightarrow> 'rect \<Rightarrow> 'layer \<Rightarrow> bool \<Rightarrow> ('pos, 'k) SimpleRectCache"
  validate :: "int \<Rightarrow> ('pos, 'k) SimpleRectCache \<Rightarrow> bool \<times> ('pos, 'k) SimpleRectCache"
  splitAtAntiMeridian :: "'rect \<Rightarrow> 'rect list"
  clientsInRect :: "'m \<Rightarrow> 'rect \<Rightarrow> 'row list"
  fillFromClient :: "'pos SimConnectAircraft \<Rightarrow> 'row \<Rightarrow> 'pos SimConnectAircraft"
  newAircraft :: "'pos SimConnectAircraft"
  getClientRecordsByCallsign :: "'m \<Rightarrow> string \<Rightarrow> 'row list"

text \<open>What \<^verbatim>\<open>NavApp\<close> knows of the simulator.\<close>

record 'pos NavApp =
  userAircraft :: "'pos SimConnectAircraft"
  connected :: bool
  aiAircraft :: "'pos SimConnectAircraft list"

fun insertRegistrations ::
  "'pos SimConnectAircraft list \<Rightarrow> (string \<times> 'pos) list \<Rightarrow> (string \<times> 'pos) list"
where
  "insertRegistrations [] regs = regs"
| "insertRegistrations (aircraft # rest) regs =
     insertRegistrations rest
       (hashInsert (airplaneRegistration aircraft) (position aircraft) regs)"

definition curRegistrations :: "'pos NavApp \<Rightarrow> (string \<times> 'pos) list" where
  "curRegistrations nav =
     (let regs0 = hashInsert (airplaneRegistration (userAircraft nav))
                    (position (userAircraft nav)) [];
          regs1 = (if connected nav \<or> debug (userAircraft nav)
                   then insertRegistrations (aiAircraft nav) regs0 else regs0)
      in hashRemove [] regs1)"

text \<open>The inner loop of the cache fill: one row after the other, appended unless it
  duplicates a simulator aircraft close by.\<close>

fun fillRows ::
  "('m, 'pos, 'k, 'rect, 'layer, 'row) Store \<Rightarrow> 'pos Geo \<Rightarrow> (string \<times> 'pos) list \<Rightarrow> 'row list
   \<Rightarrow> 'pos SimConnectAircraft list \<Rightarrow> 'pos SimConnectAircraft list"
where
  "fillRows Q G cur [] lst = lst"
| "fillRows Q G cur (row # rows) lst =
     (let aircraft = fillFromClient Q (newAircraft Q) row in
      fillRows Q G cur rows
        (if \<not> hashContains cur (airplaneRegistration aircraft) \<or>
            distanceMeterTo G (position aircraft)
              (hashValue (defaultPos G) cur (airplaneRegistration aircraft))
            > real_of_int (MIN_DISTANCE_DUPLICATE_M G)
         then lst @ [aircraft] else lst))"

fun fillRects ::
  "('m, 'pos, 'k, 'rect, 'layer, 'row) Store \<Rightarrow> 'pos Geo \<Rightarrow> 'm \<Rightarrow> (string \<times> 'pos) list
   \<Rightarrow> 'rect list \<Rightarrow> 'pos SimConnectAircraft list \<Rightarrow> 'pos SimConnectAircraft list"
where
  "fillRects Q G m cur [] lst = lst"
| "fillRects Q G m cur (r # rs) lst =
     fillRects Q G m cur rs (fillRows Q G cur (clientsInRect Q m r) lst)"


definition isShadowAircraft ::
  "'pos Geo \<Rightarrow> ('m, 'pos, 'k) Controller \<Rightarrow> 'pos SimConnectAircraft \<Rightarrow> bool"
where
  "isShadowAircraft G s simAircraft =
     (let pos = hashValue (defaultPos G) (clientCallsignAndPosMap s)
                  (airplaneRegistration simAircraft)
      in onlineShadow simAircraft \<or>
         (isValid G pos \<and>
          distanceMeterTo G pos (position simAircraft) < real_of_int (MIN_DISTANCE_DUPLICATE_M G)))"

text \<open>\<^verbatim>\<open>constFirst\<close> of an empty list is undefined behaviour in C++: \<open>None\<close>.\<close>

fun constFirst :: "'a list \<Rightarrow> 'a option" where
  "constFirst [] = None"
| "constFirst (x # xs) = Some x"

text \<open>\<^verbatim>\<open>getShadowAircraft\<close> returns its boolean and the \<^verbatim>\<open>onlineClient\<close> it was given by
  reference; \<open>None\<close> stands for a crash.\<close>

definition getShadowAircraft ::
  "('m, 'pos, 'k, 'rect, 'layer, 'row) Store \<Rightarrow> 'pos Geo \<Rightarrow> ('m, 'pos, 'k) Controller
   \<Rightarrow> 'pos SimConnectAircraft \<Rightarrow> 'pos SimConnectAircraft
   \<Rightarrow> (bool \<times> 'pos SimConnectAircraft) option"
where
  "getShadowAircraft Q G s onlineClient simAircraft =
     (if isShadowAircraft G s simAircraft then
        let clients = getClientRecordsByCallsign Q (manager s) (airplaneRegistration simAircraft)
        in
        if clients \<noteq> [] then
          (case constFirst clients of
             None \<Rightarrow> None
           | Some row \<Rightarrow>
               Some (True, (fillFromClient Q onlineClient row)\<lparr>position := position simAircraft\<rparr>))
        else Some (False, onlineClient)
      else Some (False, onlineClient))"

text \<open>An aircraft of the map layer (\<^verbatim>\<open>map::MapAiAircraft\<close>, \<^verbatim>\<open>map::MapOnlineAircraft\<close>):
  the aircraft and the position of the map object.\<close>

record 'pos MapAircraft =
  mapAircraft :: "'pos SimConnectAircraft"
  mapPosition :: 'pos

fun shadowRegistrations ::
  "(string \<times> 'pos) list \<Rightarrow> 'pos MapAircraft list \<Rightarrow> (string \<times> 'pos) list
   \<Rightarrow> (string \<times> 'pos) list"
where
  "shadowRegistrations simRegs [] registrations = registrations"
| "shadowRegistrations simRegs (ac # acs) registrations =
     shadowRegistrations simRegs acs
       (if onlineShadow (mapAircraft ac) \<and> airplaneRegistration (mapAircraft ac) \<noteq> [] \<and>
           hashContains simRegs (airplaneRegistration (mapAircraft ac))
        then hashInsert (airplaneRegistration (mapAircraft ac)) (mapPosition ac) registrations
        else registrations)"

text \<open>The predicate given to \<^verbatim>\<open>std::remove_if\<close>.\<close>

definition shadowed ::
  "'pos Geo \<Rightarrow> (string \<times> 'pos) list \<Rightarrow> 'pos MapAircraft \<Rightarrow> bool"
where
  "shadowed G registrations aircraft =
     (hashContains registrations (airplaneRegistration (mapAircraft aircraft)) \<and>
      distanceMeterTo G (mapPosition aircraft)
        (hashValue (defaultPos G) registrations (airplaneRegistration (mapAircraft aircraft)))
      \<le> real_of_int (MIN_DISTANCE_DUPLICATE_M G))"

definition filterOnlineShadowAircraft ::
  "'pos Geo \<Rightarrow> ('m, 'pos, 'k) Controller \<Rightarrow> 'pos MapAircraft list \<Rightarrow> 'pos MapAircraft list
   \<Rightarrow> 'pos MapAircraft list"
where
  "filterOnlineShadowAircraft G s onlineAircraft simAircraft =
     (let registrations = shadowRegistrations (simulatorAiRegistrations s) simAircraft []
      in filter (\<lambda>aircraft. \<not> shadowed G registrations aircraft) onlineAircraft)"

subsection \<open>Example values\<close>

text \<open>A small network for the concrete runs below. The manager's state says whether a
  status document has been read; before that it knows no URL. A whazzup payload
  \<open>''stale''\<close> carries an old timestamp. Positions are metres along one meridian, so the
  great-circle distance of two of them is the absolute difference; the nautical mile has
  1852 metres.\<close>

definition exampleManager :: "bool \<Rightarrow> string \<Rightarrow> (bool, int) Manager" where
  "exampleManager json voiceUrl =
     \<lparr>uncompress = (\<lambda>d utf8. d),
      readFromStatus = (\<lambda>txt m. True),
      readFromTransceivers = (\<lambda>txt m. m),
      readFromWhazzup = (\<lambda>txt fmt t m. (txt \<noteq> ''stale'', m)),
      readServersFromWhazzup = (\<lambda>txt fmt t m. m),
      getWhazzupUrlFromStatus = (\<lambda>m. (if m then ''http://net/whazzup'' else [], False, json)),
      getWhazzupVoiceUrlFromStatus = (\<lambda>m. if m then voiceUrl else []),
      getMessageFromStatus = (\<lambda>m. []),
      getLastUpdateTimeFromWhazzup = (\<lambda>m. None),
      getReloadMinutesFromWhazzup = (\<lambda>m. 2),
      getClientCallsignAndPosMap = (\<lambda>m h. hashInsert ''DLH123'' 7 h),
      resetForNewOptions = (\<lambda>m. False),
      clearData = (\<lambda>m. m),
      setAtcSize = (\<lambda>sizes m. m)\<rparr>"

definition exampleOptions :: "OnlineNetwork \<Rightarrow> OnlineFormat \<Rightarrow> int \<Rightarrow> OptionData" where
  "exampleOptions net fmt reload =
     \<lparr>onlineNetwork = net, onlineFormat = fmt,
      onlineStatusUrl = ''http://net/status'', onlineWhazzupUrl = [],
      onlineTransceiverUrl = ''http://net/transceivers'',
      onlineVatsimTransceiverReload = - 1,
      onlineReload = (\<lambda>n. reload), noUserAgent = False,
      displayOnlineObserver = - 1, displayOnlineFir = - 1, displayOnlineClearance = - 1,
      displayOnlineGround = - 2, displayOnlineTower = 20, displayOnlineApproach = 40,
      displayOnlineArea = 200, displayOnlineDeparture = 0\<rparr>"

definition exampleAircraft :: "string \<Rightarrow> int \<Rightarrow> bool \<Rightarrow> int SimConnectAircraft" where
  "exampleAircraft reg pos shadow =
     \<lparr>airplaneRegistration = reg, position = pos, onlineShadow = shadow, debug = False\<rparr>"

definition exampleMapAircraft :: "string \<Rightarrow> int \<Rightarrow> bool \<Rightarrow> int MapAircraft" where
  "exampleMapAircraft reg pos shadow =
     \<lparr>mapAircraft = exampleAircraft reg pos shadow, mapPosition = pos\<rparr>"

definition exampleController ::
  "State \<Rightarrow> bool \<Rightarrow> (string \<times> int) list \<Rightarrow> int SimConnectAircraft list
   \<Rightarrow> (bool, int, unit) Controller"
where
  "exampleController st m regs cached =
     \<lparr>currentState = st, whazzupUrlFromStatus = (if m then ''http://net/whazzup'' else []),
      lastUpdateTime = 0, lastServerDownload = 0, lastUpdateTimeTransceivers = Some 0,
      clientCallsignAndPosMap = regs,
      aircraftCache = \<lparr>cacheList = cached, cacheKey = Some ()\<rparr>,
      simulatorAiRegistrations = regs,
      downloader = \<lparr>url = [], downloading = False, userAgentShort = []\<rparr>,
      downloadTimer = \<lparr>timerActive = False, timerInterval = 0\<rparr>,
      pending = [], signals = [],
      statusMessage = \<lparr>messageText = ([], []), messageToolTip = ([], [])\<rparr>,
      manager = m\<rparr>"

definition exampleGeo :: "int Geo" where
  "exampleGeo =
     \<lparr>distanceMeterTo = (\<lambda>p q. real_of_int \<bar>p - q\<bar>), isValid = (\<lambda>p. 0 \<le> p),
      defaultPos = - 1, nmToMeter = (\<lambda>nm. nm * 1852)\<rparr>"

definition exampleStore ::
  "(string \<times> int) list \<Rightarrow> (bool, int, unit, unit, unit, string \<times> int) Store"
where
  "exampleStore rows =
     \<lparr>updateCache = (\<lambda>c rect mapLayer lazy. c),
      validate = (\<lambda>n c. (n \<le> int (length (cacheList c)), c)),
      splitAtAntiMeridian = (\<lambda>rect. [rect]),
      clientsInRect = (\<lambda>m rect. rows),
      fillFromClient = (\<lambda>ac row. ac\<lparr>airplaneRegistration := fst row, position := snd row\<rparr>),
      newAircraft = exampleAircraft [] (- 1) False,
      getClientRecordsByCallsign = (\<lambda>m callsign. filter (\<lambda>row. fst row = callsign) rows)\<rparr>"

definition exampleNavApp :: "string \<Rightarrow> int SimConnectAircraft list \<Rightarrow> int NavApp" where
  "exampleNavApp userReg ai =
     \<lparr>userAircraft = exampleAircraft userReg 0 False, connected = True, aiAircraft = ai\<rparr>"


section \<open>Properties\<close>

subsection \<open>Auxiliary facts\<close>

lemmas slot_defs =
  singleShot_def emit_def setUrl_def setOnlineConnectionStatusMessageText_def cacheClear_def
  startDownloader_def stopAllProcesses_def statusBarMessage_def startDownloadTimer_def
  finishCycle_def clearCaches_def cancelDownload_def timerStop_def timerStart_def setInterval_def

lemmas example_defs =
  exampleManager_def exampleOptions_def exampleAircraft_def exampleMapAircraft_def
  exampleController_def exampleGeo_def exampleStore_def exampleNavApp_def

text \<open>The branches of \<^verbatim>\<open>downloadFinished\<close>, one per state.\<close>

lemma downloadFinished_idle:
  "currentState s = NONE \<Longrightarrow> downloadFinished M od now data u s = s"
  unfolding downloadFinished_def by simp

lemma downloadFinished_status:
  "currentState s = DOWNLOADING_STATUS \<Longrightarrow>
   currentState (downloadFinished M od now data u s) \<noteq> DOWNLOADING_WHAZZUP_SERVERS \<and>
   (currentState (downloadFinished M od now data u s) = NONE \<longrightarrow>
    downloadTimer (downloadFinished M od now data u s) =
      downloadTimer (startDownloadTimer M od
        (s\<lparr>manager := readFromStatus M (uncompress M data False) (manager s)\<rparr>)))"
  unfolding downloadFinished_def
  by (simp add: Let_def case_prod_beta slot_defs)

lemma downloadFinished_transceivers:
  "currentState s = DOWNLOADING_TRANSCEIVERS \<Longrightarrow>
   currentState (downloadFinished M od now data u s) = DOWNLOADING_WHAZZUP"
  unfolding downloadFinished_def
  by (simp add: Let_def slot_defs)

lemma downloadFinished_whazzup:
  "currentState s = DOWNLOADING_WHAZZUP \<Longrightarrow>
   downloadFinished M od now data u s =
     (let s1 = s\<lparr>manager := snd (whazzupRead M od data s)\<rparr> in
      if fst (whazzupRead M od data s) then
        let s2 = s1\<lparr>clientCallsignAndPosMap :=
                      getClientCallsignAndPosMap M (snd (whazzupRead M od data s)) []\<rparr>
        in
        if \<not> jsonFormat od \<and>
           getWhazzupVoiceUrlFromStatus M (snd (whazzupRead M od data s)) \<noteq> [] \<and>
           lastServerDownload s < now - 900000
        then
          startDownloader
            (setUrl (getWhazzupVoiceUrlFromStatus M (snd (whazzupRead M od data s)))
               (s2\<lparr>currentState := DOWNLOADING_WHAZZUP_SERVERS\<rparr>))
        else
          statusBarMessage od
            (emit (onlineClientAndAtcUpdated True True)
               (emit (onlineServersUpdated True True) (clearCaches (finishCycle M od now s2))))
      else finishCycle M od now s1)"
  unfolding downloadFinished_def whazzupRead_def jsonFormat_def
  by (simp add: Let_def case_prod_beta addSecs_def wrap32_def
        MIN_SERVER_DOWNLOAD_INTERVAL_MIN_def)

lemma downloadFinished_servers:
  "currentState s = DOWNLOADING_WHAZZUP_SERVERS \<Longrightarrow>
   currentState (downloadFinished M od now data u s) = NONE \<and>
   downloadTimer (downloadFinished M od now data u s) =
     downloadTimer (startDownloadTimer M od
       (s\<lparr>manager := readServersFromWhazzup M (uncompress M data False)
                    (convertFormat (onlineFormat od))
                    (getLastUpdateTimeFromWhazzup M (manager s)) (manager s),
          lastServerDownload := now\<rparr>))"
  unfolding downloadFinished_def
  by (simp add: Let_def slot_defs)

lemma whazzup_to_servers:
  assumes "currentState s = DOWNLOADING_WHAZZUP"
    and "currentState (downloadFinished M od now data u s) = DOWNLOADING_WHAZZUP_SERVERS"
  shows "\<not> jsonFormat od \<and> fst (whazzupRead M od data s) \<and>
     getWhazzupVoiceUrlFromStatus M (snd (whazzupRead M od data s)) \<noteq> [] \<and>
     lastServerDownload s < now - 900000"
proof (rule ccontr)
  assume neg: "\<not> ?thesis"
  have "currentState (downloadFinished M od now data u s) = NONE"
    using assms(1) neg
    by (auto simp add: downloadFinished_whazzup Let_def slot_defs)
  with assms(2) show False by simp
qed

lemma finished_enters_servers:
  assumes "currentState s \<noteq> DOWNLOADING_WHAZZUP_SERVERS"
    and "currentState (downloadFinished M od now data u s) = DOWNLOADING_WHAZZUP_SERVERS"
  shows "currentState s = DOWNLOADING_WHAZZUP"
proof (cases "currentState s")
  case NONE
  then show ?thesis using assms(2) by (simp add: downloadFinished_idle)
next
  case DOWNLOADING_STATUS
  then show ?thesis using assms(2) by (simp add: downloadFinished_status)
next
  case DOWNLOADING_WHAZZUP
  then show ?thesis .
next
  case DOWNLOADING_TRANSCEIVERS
  then show ?thesis using assms(2) by (simp add: downloadFinished_transceivers)
next
  case DOWNLOADING_WHAZZUP_SERVERS
  then show ?thesis using assms(1) by simp
qed

lemma start_not_servers:
  "currentState s \<noteq> DOWNLOADING_WHAZZUP_SERVERS \<Longrightarrow>
   currentState (startDownloadInternal M od now s) \<noteq> DOWNLOADING_WHAZZUP_SERVERS"
  unfolding startDownloadInternal_def
  by (simp add: Let_def case_prod_beta slot_defs)

lemma failed_state: "currentState (downloadFailed error errorCode u s) = NONE"
  by (simp add: downloadFailed_def slot_defs)

lemma optionsChanged_not_servers:
  "currentState (optionsChanged M od now s) \<noteq> DOWNLOADING_WHAZZUP_SERVERS"
  unfolding optionsChanged_def Let_def
  by (rule start_not_servers) (simp add: slot_defs updateAtcSizes_def Let_def)

text \<open>Only a delivered payload can take the controller into the servers stage.\<close>

lemma step_enters_servers:
  assumes "currentState s \<noteq> DOWNLOADING_WHAZZUP_SERVERS"
    and "currentState (step M (od, now, ev) s) = DOWNLOADING_WHAZZUP_SERVERS"
  shows "currentState s = DOWNLOADING_WHAZZUP \<and>
     (\<exists>data u. ev = EvDownloadFinished data u \<and> fst (whazzupRead M od data s) \<and>
        getWhazzupVoiceUrlFromStatus M (snd (whazzupRead M od data s)) \<noteq> []) \<and>
     \<not> jsonFormat od \<and> lastServerDownload s < now - 15 * 60 * 1000"
proof (cases ev)
  case EvStartDownloadInternal
  then show ?thesis using assms start_not_servers [of s M od now] by simp
next
  case (EvDownloadFinished data u)
  with assms(2)
  have fin: "currentState (downloadFinished M od now data u s) = DOWNLOADING_WHAZZUP_SERVERS"
    by simp
  have st: "currentState s = DOWNLOADING_WHAZZUP"
    using assms(1) fin by (rule finished_enters_servers)
  from whazzup_to_servers [OF st fin] st EvDownloadFinished show ?thesis by simp
next
  case (EvDownloadFailed error errorCode u)
  then show ?thesis using assms(2) by (simp add: failed_state)
next
  case EvOptionsChanged
  then show ?thesis using assms(2) optionsChanged_not_servers [of M od now s] by simp
next
  case (EvDownloaderBusy b)
  then show ?thesis using assms by simp
qed

lemma step_not_servers:
  assumes "jsonFormat (fst e)" and "currentState s \<noteq> DOWNLOADING_WHAZZUP_SERVERS"
  shows "currentState (step M e s) \<noteq> DOWNLOADING_WHAZZUP_SERVERS"
proof
  assume enters: "currentState (step M e s) = DOWNLOADING_WHAZZUP_SERVERS"
  obtain od now ev where e: "e = (od, now, ev)" by (cases e) auto
  from step_enters_servers [OF assms(2) enters [unfolded e]] have "\<not> jsonFormat od" by simp
  with assms(1) e show False by simp
qed

lemma run_not_servers:
  "\<forall>e \<in> set es. jsonFormat (fst e) \<Longrightarrow> currentState s \<noteq> DOWNLOADING_WHAZZUP_SERVERS \<Longrightarrow>
   \<forall>s' \<in> set (run M es s). currentState s' \<noteq> DOWNLOADING_WHAZZUP_SERVERS"
proof (induction es arbitrary: s)
  case Nil
  then show ?case by simp
next
  case (Cons e es)
  have "currentState (step M e s) \<noteq> DOWNLOADING_WHAZZUP_SERVERS"
    using Cons.prems by (simp add: step_not_servers)
  with Cons show ?case by simp
qed

text \<open>The re-poll timer of a custom network.\<close>

lemma timer_custom:
  "onlineNetwork od = ONLINE_CUSTOM \<or> onlineNetwork od = ONLINE_CUSTOM_STATUS \<Longrightarrow>
   downloadTimer (startDownloadTimer M od s) =
     \<lparr>timerActive = True, timerInterval = wrap32 (onlineReload od (onlineNetwork od) * 1000)\<rparr>"
  by (auto simp add: slot_defs Let_def)

lemma finished_timer:
  assumes "onlineNetwork od = ONLINE_CUSTOM \<or> onlineNetwork od = ONLINE_CUSTOM_STATUS"
    and "currentState s \<noteq> NONE" and "currentState (downloadFinished M od now data u s) = NONE"
  shows "downloadTimer (downloadFinished M od now data u s) =
     \<lparr>timerActive = True, timerInterval = wrap32 (onlineReload od (onlineNetwork od) * 1000)\<rparr>"
proof (cases "currentState s")
  case NONE
  then show ?thesis using assms(2) by simp
next
  case DOWNLOADING_STATUS
  then show ?thesis using assms(1,3) by (simp add: downloadFinished_status timer_custom)
next
  case DOWNLOADING_WHAZZUP
  have "downloadTimer (downloadFinished M od now data u s) =
        downloadTimer (startDownloadTimer M od
          (s\<lparr>manager := snd (whazzupRead M od data s),
             clientCallsignAndPosMap :=
               (if fst (whazzupRead M od data s)
                then getClientCallsignAndPosMap M (snd (whazzupRead M od data s)) []
                else clientCallsignAndPosMap s)\<rparr>))"
    using DOWNLOADING_WHAZZUP assms(3)
    by (auto simp add: downloadFinished_whazzup Let_def slot_defs)
  then show ?thesis using assms(1) by (simp add: timer_custom)
next
  case DOWNLOADING_TRANSCEIVERS
  then show ?thesis using assms(3) by (simp add: downloadFinished_transceivers)
next
  case DOWNLOADING_WHAZZUP_SERVERS
  then show ?thesis using assms(1) by (simp add: downloadFinished_servers timer_custom)
qed

text \<open>The hash tables.\<close>

lemma map_of_hashInsert:
  "map_of (hashInsert k v h) k' = (if k' = k then Some v else map_of h k')"
  by (induction h) (auto simp add: hashInsert_def)

lemma map_of_hashRemove:
  "map_of (hashRemove k h) k' = (if k' = k then None else map_of h k')"
  by (induction h) (auto simp add: hashRemove_def)

lemma hashKeys_dom: "hashKeys h = dom (map_of h)"
  by (simp add: hashKeys_def dom_map_of_conv_image_fst)

lemma hashContains_hashKeys: "hashContains h k \<longleftrightarrow> k \<in> hashKeys h"
  by (auto simp add: hashContains_def hashKeys_dom)

lemma hashKeys_Nil: "hashKeys [] = {}"
  by (simp add: hashKeys_def)

lemma hashKeys_hashInsert: "hashKeys (hashInsert k v h) = insert k (hashKeys h)"
  by (auto simp add: hashKeys_dom map_of_hashInsert dom_def)

lemma hashKeys_hashRemove: "hashKeys (hashRemove k h) = hashKeys h - {k}"
  by (auto simp add: hashKeys_dom map_of_hashRemove dom_def)

lemma hashKeys_insertRegistrations:
  "hashKeys (insertRegistrations acs regs) = airplaneRegistration ` set acs \<union> hashKeys regs"
  by (induction acs arbitrary: regs) (auto simp add: hashKeys_hashInsert)

lemma hashKeys_curRegistrations:
  "hashKeys (curRegistrations nav) =
     ({airplaneRegistration (userAircraft nav)} \<union>
      (if connected nav \<or> debug (userAircraft nav)
       then airplaneRegistration ` set (aiAircraft nav) else {})) - {[]}"
  by (auto simp add: curRegistrations_def Let_def hashKeys_hashRemove hashKeys_hashInsert
        hashKeys_insertRegistrations hashKeys_Nil)

text \<open>The facility sizes.\<close>

lemma atcSizeLoop_lookup:
  "map_of (atcSizeLoop od ts sizeMap) t =
     (if t \<in> set ts
      then Some (if configuredDiameter od t \<noteq> - 1 then max 1 (configuredDiameter od t sdiv 2)
                 else - 1)
      else map_of sizeMap t)"
  by (induction ts arbitrary: sizeMap) (auto simp add: map_of_hashInsert Let_def)

lemma allFacilityTypes_complete: "t \<in> set allFacilityTypes"
  by (cases t) (simp_all add: allFacilityTypes_def)

text \<open>The cache fill as a filter, and the cache that \<^verbatim>\<open>getAircraft\<close> leaves.\<close>

lemma fillRows_filter:
  "fillRows Q G cur rows lst =
     lst @ filter (\<lambda>aircraft.
              \<not> (hashContains cur (airplaneRegistration aircraft) \<and>
                 distanceMeterTo G (position aircraft)
                   (hashValue (defaultPos G) cur (airplaneRegistration aircraft))
                 \<le> real_of_int (MIN_DISTANCE_DUPLICATE_M G)))
            (map (fillFromClient Q (newAircraft Q)) rows)"
  by (induction rows arbitrary: lst) (auto simp add: Let_def)


text \<open>The registrations collected by the presentation-time filter.\<close>

lemma shadowRegistrations_lookup:
  "map_of (shadowRegistrations simRegs acs registrations) k = Some p \<Longrightarrow>
   map_of registrations k = Some p \<or>
   (\<exists>ac \<in> set acs. onlineShadow (mapAircraft ac) \<and> k \<noteq> [] \<and> hashContains simRegs k \<and>
      airplaneRegistration (mapAircraft ac) = k \<and> mapPosition ac = p)"
proof (induction acs arbitrary: registrations)
  case Nil
  then show ?case by simp
next
  case (Cons ac acs)
  from Cons.IH [OF Cons.prems [simplified]] show ?case
    by (auto simp add: map_of_hashInsert split: if_splits)
qed

lemma shadowed_cases:
  assumes "shadowed G (shadowRegistrations simRegs acs []) aircraft"
  shows "airplaneRegistration (mapAircraft aircraft) \<noteq> [] \<and>
     hashContains simRegs (airplaneRegistration (mapAircraft aircraft)) \<and>
     (\<exists>ac \<in> set acs. onlineShadow (mapAircraft ac) \<and>
        airplaneRegistration (mapAircraft ac) = airplaneRegistration (mapAircraft aircraft) \<and>
        distanceMeterTo G (mapPosition aircraft) (mapPosition ac)
          \<le> real_of_int (MIN_DISTANCE_DUPLICATE_M G))"
proof -
  let ?k = "airplaneRegistration (mapAircraft aircraft)"
  let ?regs = "shadowRegistrations simRegs acs []"
  from assms obtain p where p: "map_of ?regs ?k = Some p"
    by (auto simp add: shadowed_def hashContains_def)
  with assms have d: "distanceMeterTo G (mapPosition aircraft) p
      \<le> real_of_int (MIN_DISTANCE_DUPLICATE_M G)"
    by (simp add: shadowed_def hashValue_def)
  from shadowRegistrations_lookup [OF p] d show ?thesis by auto
qed

subsection \<open>The download state machine\<close>

text \<open>
  Claim C1. A call of \<^verbatim>\<open>startDownloadInternal\<close> while the downloader reports a download
  in flight, or while the state is not \<open>NONE\<close>, does nothing: the controller it returns
  is the one it was given, so the state is unchanged, no URL is set on the downloader and
  no fetch is queued.
\<close>

theorem startDownloadInternal_guard_noop:
  assumes "downloading (downloader s) \<or> currentState s \<noteq> NONE"
  shows "startDownloadInternal M od now s = s"
  using assms by (simp add: startDownloadInternal_def)

theorem startDownloadInternal_guard_noop_witness:
  "startDownloadInternal (exampleManager False [])
     (exampleOptions ONLINE_VATSIM ONLINE_FORMAT_VATSIM (- 1)) 1000000
     (exampleController DOWNLOADING_WHAZZUP True [] []) =
   exampleController DOWNLOADING_WHAZZUP True [] []"
proof -
  have busy: "downloading (downloader (exampleController DOWNLOADING_WHAZZUP True [] [])) \<or>
      currentState (exampleController DOWNLOADING_WHAZZUP True [] []) \<noteq> NONE"
    by (simp add: exampleController_def)
  show ?thesis by (rule startDownloadInternal_guard_noop [OF busy])
qed

text \<open>
  Claim C2. Whatever the error and whatever the state of the chain, \<^verbatim>\<open>downloadFailed\<close>
  cancels the download, stops the re-poll timer, resets the state to \<open>NONE\<close>, clears
  \<^verbatim>\<open>simulatorAiRegistrations\<close>, sets a status message whose place markers are filled with
  the failed URL and the error, and queues exactly one more deferred call:
  \<^verbatim>\<open>startProcessing\<close> after 180000 ms. The delay is a constant; the interval of the
  re-poll timer is neither read nor changed.
\<close>

theorem downloadFailed_aborts_and_retries:
  "downloading (downloader (downloadFailed error errorCode u s)) = False \<and>
   timerActive (downloadTimer (downloadFailed error errorCode u s)) = False \<and>
   timerInterval (downloadTimer (downloadFailed error errorCode u s)) =
     timerInterval (downloadTimer s) \<and>
   currentState (downloadFailed error errorCode u s) = NONE \<and>
   simulatorAiRegistrations (downloadFailed error errorCode u s) = [] \<and>
   fst (messageText (statusMessage (downloadFailed error errorCode u s))) =
     ''Online Network Failed'' \<and>
   snd (messageToolTip (statusMessage (downloadFailed error errorCode u s))) = [u, error] \<and>
   pending (downloadFailed error errorCode u s) = pending s @ [(180 * 1000, StartProcessing)]"
  by (simp add: downloadFailed_def slot_defs)

theorem downloadFailed_aborts_and_retries_witness:
  "currentState
     (downloadFailed ''Connection refused'' 1 ''http://net/status''
        (exampleController DOWNLOADING_STATUS False [(''DLH123'', 0)] [])) = NONE \<and>
   simulatorAiRegistrations
     (downloadFailed ''Connection refused'' 1 ''http://net/status''
        (exampleController DOWNLOADING_STATUS False [(''DLH123'', 0)] [])) = [] \<and>
   pending
     (downloadFailed ''Connection refused'' 1 ''http://net/status''
        (exampleController DOWNLOADING_STATUS False [(''DLH123'', 0)] [])) =
     [(180000, StartProcessing)]"
  using downloadFailed_aborts_and_retries
    [of "''Connection refused''" 1 "''http://net/status''"
        "exampleController DOWNLOADING_STATUS False [(''DLH123'', 0)] []"]
  by (simp add: exampleController_def)

text \<open>
  Claim C3. When the whazzup payload is not newer than the last accepted one
  (\<^verbatim>\<open>readFromWhazzup\<close> returns false), \<^verbatim>\<open>downloadFinished\<close> emits no signal, leaves the
  aircraft cache, \<^verbatim>\<open>simulatorAiRegistrations\<close>, \<^verbatim>\<open>clientCallsignAndPosMap\<close> and the status
  message as they were and queues no fetch; still the cycle ends: the state is \<open>NONE\<close>,
  \<^verbatim>\<open>lastUpdateTime\<close> is the current time and the re-poll timer runs.
\<close>

theorem stale_whazzup_ends_cycle_silently:
  assumes "currentState s = DOWNLOADING_WHAZZUP" and "\<not> fst (whazzupRead M od data s)"
  shows "signals (downloadFinished M od now data u s) = signals s \<and>
     aircraftCache (downloadFinished M od now data u s) = aircraftCache s \<and>
     simulatorAiRegistrations (downloadFinished M od now data u s) = simulatorAiRegistrations s \<and>
     clientCallsignAndPosMap (downloadFinished M od now data u s) = clientCallsignAndPosMap s \<and>
     statusMessage (downloadFinished M od now data u s) = statusMessage s \<and>
     pending (downloadFinished M od now data u s) = pending s \<and>
     currentState (downloadFinished M od now data u s) = NONE \<and>
     lastUpdateTime (downloadFinished M od now data u s) = now \<and>
     timerActive (downloadTimer (downloadFinished M od now data u s))"
  using assms
  by (simp add: downloadFinished_whazzup Let_def slot_defs)

theorem stale_whazzup_ends_cycle_silently_witness:
  "currentState
     (downloadFinished (exampleManager False [])
        (exampleOptions ONLINE_VATSIM ONLINE_FORMAT_VATSIM (- 1)) 1000000 ''stale''
        ''http://net/whazzup''
        (exampleController DOWNLOADING_WHAZZUP True [(''DLH123'', 0)]
           [exampleAircraft ''BAW1'' 5 False])) = NONE \<and>
   signals
     (downloadFinished (exampleManager False [])
        (exampleOptions ONLINE_VATSIM ONLINE_FORMAT_VATSIM (- 1)) 1000000 ''stale''
        ''http://net/whazzup''
        (exampleController DOWNLOADING_WHAZZUP True [(''DLH123'', 0)]
           [exampleAircraft ''BAW1'' 5 False])) = [] \<and>
   cacheList (aircraftCache
     (downloadFinished (exampleManager False [])
        (exampleOptions ONLINE_VATSIM ONLINE_FORMAT_VATSIM (- 1)) 1000000 ''stale''
        ''http://net/whazzup''
        (exampleController DOWNLOADING_WHAZZUP True [(''DLH123'', 0)]
           [exampleAircraft ''BAW1'' 5 False]))) = [exampleAircraft ''BAW1'' 5 False] \<and>
   lastUpdateTime
     (downloadFinished (exampleManager False [])
        (exampleOptions ONLINE_VATSIM ONLINE_FORMAT_VATSIM (- 1)) 1000000 ''stale''
        ''http://net/whazzup''
        (exampleController DOWNLOADING_WHAZZUP True [(''DLH123'', 0)]
           [exampleAircraft ''BAW1'' 5 False])) = 1000000"
proof -
  let ?s = "exampleController DOWNLOADING_WHAZZUP True [(''DLH123'', 0)]
              [exampleAircraft ''BAW1'' 5 False]"
  let ?M = "exampleManager False []"
  let ?od = "exampleOptions ONLINE_VATSIM ONLINE_FORMAT_VATSIM (- 1)"
  have st: "currentState ?s = DOWNLOADING_WHAZZUP"
    by (simp add: exampleController_def)
  have stale: "\<not> fst (whazzupRead ?M ?od ''stale'' ?s)"
    by (simp add: whazzupRead_def exampleManager_def)
  have old: "signals ?s = [] \<and>
      cacheList (aircraftCache ?s) = [exampleAircraft ''BAW1'' 5 False]"
    by (simp add: exampleController_def)
  from stale_whazzup_ends_cycle_silently [OF st stale, of 1000000 "''http://net/whazzup''"] old
  show ?thesis by simp
qed

text \<open>
  Claim C4, as the code has it. With a custom network (\<open>ONLINE_CUSTOM\<close> or
  \<open>ONLINE_CUSTOM_STATUS\<close>) \<^verbatim>\<open>startDownloadTimer\<close> takes the configured interval as it
  is: no minimum is applied, and the reload hint of the whazzup payload is not read. The
  claim's \<open>max(configuredInterval, MIN_RELOAD_TIME_SECONDS)\<close> fails for a configured
  interval of 5 seconds: the timer is set to 5000 ms, not to 15000 ms.
\<close>

theorem custom_interval_floor_counterexample:
  "onlineNetwork (exampleOptions ONLINE_CUSTOM ONLINE_FORMAT_VATSIM 5) = ONLINE_CUSTOM \<and>
   timerInterval (downloadTimer
     (startDownloadTimer (exampleManager False [])
        (exampleOptions ONLINE_CUSTOM ONLINE_FORMAT_VATSIM 5)
        (exampleController DOWNLOADING_WHAZZUP True [] []))) = 5000 \<and>
   max (onlineReload (exampleOptions ONLINE_CUSTOM ONLINE_FORMAT_VATSIM 5) ONLINE_CUSTOM)
     MIN_RELOAD_TIME_SECONDS * 1000 = 15000"
  by (simp add: startDownloadTimer_def exampleOptions_def exampleController_def Let_def
        timerStop_def timerStart_def setInterval_def wrap32_def MIN_RELOAD_TIME_SECONDS_def)

text \<open>
  Claim C4, amended. For a custom network the timer that \<^verbatim>\<open>startDownloadTimer\<close> starts
  has the configured interval, in milliseconds, whatever the manager reports as reload
  minutes; and every \<^verbatim>\<open>downloadFinished\<close> that takes the controller from a download
  state to \<open>NONE\<close> leaves the timer running with that interval.
\<close>

theorem custom_network_uses_configured_interval:
  assumes "onlineNetwork od = ONLINE_CUSTOM \<or> onlineNetwork od = ONLINE_CUSTOM_STATUS"
  shows "downloadTimer (startDownloadTimer M od s) =
       \<lparr>timerActive = True, timerInterval = wrap32 (onlineReload od (onlineNetwork od) * 1000)\<rparr> \<and>
     (currentState s \<noteq> NONE \<and> currentState (downloadFinished M od now data u s) = NONE \<longrightarrow>
      downloadTimer (downloadFinished M od now data u s) =
        \<lparr>timerActive = True, timerInterval = wrap32 (onlineReload od (onlineNetwork od) * 1000)\<rparr>)"
  using assms timer_custom [of od M s] finished_timer [of od s M now data u]
  by blast

theorem custom_network_uses_configured_interval_witness:
  "downloadTimer
     (downloadFinished (exampleManager False [])
        (exampleOptions ONLINE_CUSTOM ONLINE_FORMAT_VATSIM 5) 1000000 ''stale''
        ''http://net/whazzup'' (exampleController DOWNLOADING_WHAZZUP True [] [])) =
   \<lparr>timerActive = True, timerInterval = 5000\<rparr>"
proof -
  let ?s = "exampleController DOWNLOADING_WHAZZUP True [] []"
  let ?M = "exampleManager False []"
  let ?od = "exampleOptions ONLINE_CUSTOM ONLINE_FORMAT_VATSIM 5"
  have net: "onlineNetwork ?od = ONLINE_CUSTOM \<or> onlineNetwork ?od = ONLINE_CUSTOM_STATUS"
    by (simp add: exampleOptions_def)
  have st: "currentState ?s \<noteq> NONE"
    by (simp add: exampleController_def)
  have fin: "currentState (downloadFinished ?M ?od 1000000 ''stale'' ''http://net/whazzup'' ?s)
      = NONE"
    by (simp add: downloadFinished_whazzup whazzupRead_def Let_def slot_defs
          exampleController_def exampleManager_def)
  have ms: "wrap32 (onlineReload ?od (onlineNetwork ?od) * 1000) = 5000"
    by (simp add: exampleOptions_def wrap32_def)
  from custom_network_uses_configured_interval
         [OF net, of ?M ?s 1000000 "''stale''" "''http://net/whazzup''"] st fin ms
  show ?thesis by simp
qed

text \<open>
  Claim C5. A step that takes the controller into \<open>DOWNLOADING_WHAZZUP_SERVERS\<close> is the
  delivery of a whazzup payload in state \<open>DOWNLOADING_WHAZZUP\<close>, with a format that is
  neither \<open>VATSIM_JSON3\<close> nor \<open>IVAO_JSON2\<close>, an accepted payload, a voice-server URL
  known to the manager, and a last server download more than 15 minutes before the
  current time. In a run whose every event sees a JSON format, no state on the way is
  \<open>DOWNLOADING_WHAZZUP_SERVERS\<close>, provided the first one is not.
\<close>

theorem servers_stage_only_for_legacy_formats:
  "(currentState s \<noteq> DOWNLOADING_WHAZZUP_SERVERS \<and>
    currentState (step M (od, now, ev) s) = DOWNLOADING_WHAZZUP_SERVERS \<longrightarrow>
      currentState s = DOWNLOADING_WHAZZUP \<and>
      (\<exists>data u. ev = EvDownloadFinished data u \<and> fst (whazzupRead M od data s) \<and>
         getWhazzupVoiceUrlFromStatus M (snd (whazzupRead M od data s)) \<noteq> []) \<and>
      \<not> jsonFormat od \<and> lastServerDownload s < now - 15 * 60 * 1000) \<and>
   ((\<forall>e \<in> set es. jsonFormat (fst e)) \<and> currentState s0 \<noteq> DOWNLOADING_WHAZZUP_SERVERS \<longrightarrow>
      (\<forall>s' \<in> set (run M es s0). currentState s' \<noteq> DOWNLOADING_WHAZZUP_SERVERS))"
  using step_enters_servers [of s M od now ev] run_not_servers [of es s0 M]
  by blast

theorem servers_stage_only_for_legacy_formats_witness:
  "currentState
     (step (exampleManager False ''http://net/servers'')
        (exampleOptions ONLINE_VATSIM ONLINE_FORMAT_VATSIM (- 1), 1000000,
         EvDownloadFinished ''fresh'' ''http://net/whazzup'')
        (exampleController DOWNLOADING_WHAZZUP True [] [])) = DOWNLOADING_WHAZZUP_SERVERS \<and>
   \<not> jsonFormat (exampleOptions ONLINE_VATSIM ONLINE_FORMAT_VATSIM (- 1)) \<and>
   lastServerDownload (exampleController DOWNLOADING_WHAZZUP True [] [])
     < 1000000 - 15 * 60 * 1000 \<and>
   map currentState
     (run (exampleManager True [])
        [(exampleOptions ONLINE_VATSIM ONLINE_FORMAT_VATSIM_JSON (- 1), 1000000,
          EvStartDownloadInternal),
         (exampleOptions ONLINE_VATSIM ONLINE_FORMAT_VATSIM_JSON (- 1), 1000000,
          EvDownloadFinished ''transceivers'' ''http://net/transceivers''),
         (exampleOptions ONLINE_VATSIM ONLINE_FORMAT_VATSIM_JSON (- 1), 1000000,
          EvDownloadFinished ''fresh'' ''http://net/whazzup'')]
        (exampleController NONE True [] [])) =
     [NONE, DOWNLOADING_TRANSCEIVERS, DOWNLOADING_WHAZZUP, NONE] \<and>
   DOWNLOADING_WHAZZUP_SERVERS \<notin> currentState `
     set (run (exampleManager True [])
        [(exampleOptions ONLINE_VATSIM ONLINE_FORMAT_VATSIM_JSON (- 1), 1000000,
          EvStartDownloadInternal),
         (exampleOptions ONLINE_VATSIM ONLINE_FORMAT_VATSIM_JSON (- 1), 1000000,
          EvDownloadFinished ''transceivers'' ''http://net/transceivers''),
         (exampleOptions ONLINE_VATSIM ONLINE_FORMAT_VATSIM_JSON (- 1), 1000000,
          EvDownloadFinished ''fresh'' ''http://net/whazzup'')]
        (exampleController NONE True [] []))"
proof -
  let ?MA = "exampleManager False ''http://net/servers''"
  let ?odA = "exampleOptions ONLINE_VATSIM ONLINE_FORMAT_VATSIM (- 1)"
  let ?evA = "EvDownloadFinished ''fresh'' ''http://net/whazzup''"
  let ?sA = "exampleController DOWNLOADING_WHAZZUP True [] []"
  let ?MB = "exampleManager True []"
  let ?odB = "exampleOptions ONLINE_VATSIM ONLINE_FORMAT_VATSIM_JSON (- 1)"
  let ?esB = "[(?odB, 1000000, EvStartDownloadInternal),
               (?odB, 1000000, EvDownloadFinished ''transceivers'' ''http://net/transceivers''),
               (?odB, 1000000, EvDownloadFinished ''fresh'' ''http://net/whazzup'')]"
  let ?sB = "exampleController NONE True [] []"
  have before: "currentState ?sA \<noteq> DOWNLOADING_WHAZZUP_SERVERS"
    by (simp add: exampleController_def)
  have enters: "currentState (step ?MA (?odA, 1000000, ?evA) ?sA) = DOWNLOADING_WHAZZUP_SERVERS"
    by (simp add: downloadFinished_whazzup whazzupRead_def jsonFormat_def Let_def slot_defs
          exampleController_def exampleManager_def exampleOptions_def)
  have json: "\<forall>e \<in> set ?esB. jsonFormat (fst e)"
    by (simp add: jsonFormat_def exampleOptions_def)
  have start: "currentState ?sB \<noteq> DOWNLOADING_WHAZZUP_SERVERS"
    by (simp add: exampleController_def)
  have states: "map currentState (run ?MB ?esB ?sB) =
      [NONE, DOWNLOADING_TRANSCEIVERS, DOWNLOADING_WHAZZUP, NONE]"
    by (simp add: startDownloadInternal_def downloadFinished_def Let_def slot_defs
          addSecs_def wrap32_def MIN_TRANSCEIVER_DOWNLOAD_INTERVAL_MIN_def
          exampleController_def exampleManager_def exampleOptions_def)
  from servers_stage_only_for_legacy_formats
         [of ?sA ?MA ?odA 1000000 ?evA ?esB ?sB] before enters
  have legacy: "\<not> jsonFormat ?odA \<and> lastServerDownload ?sA < 1000000 - 15 * 60 * 1000"
    by blast
  from servers_stage_only_for_legacy_formats
         [of ?sB ?MB ?odB 1000000 EvStartDownloadInternal ?esB ?sB, THEN conjunct2] json start
  have "\<forall>s' \<in> set (run ?MB ?esB ?sB). currentState s' \<noteq> DOWNLOADING_WHAZZUP_SERVERS"
    by blast
  then have never: "DOWNLOADING_WHAZZUP_SERVERS \<notin> currentState ` set (run ?MB ?esB ?sB)"
    by (auto simp only: image_iff)
  from enters legacy states never show ?thesis by blast
qed

subsection \<open>The aircraft cache\<close>




text \<open>
  Claim C7, as the code has it. The fill keeps a row when its registration is not among
  the current simulator registrations or when its distance to the recorded simulator
  position is greater than \<^verbatim>\<open>MIN_DISTANCE_DUPLICATE_M\<close>. At a distance equal to the
  threshold the row is therefore left out, where the claim (excluded only when strictly
  below) has it included: simulator aircraft \<open>DLH123\<close> at 0, online \<open>DLH123\<close> at
  55560 m, threshold 30 nm = 55560 m.
\<close>

theorem fill_boundary_counterexample:
  "hashContains [(''DLH123'', 0 :: int)] ''DLH123'' \<and>
   distanceMeterTo exampleGeo 55560 0 = real_of_int (MIN_DISTANCE_DUPLICATE_M exampleGeo) \<and>
   fillRects (exampleStore [(''DLH123'', 55560)]) exampleGeo True [(''DLH123'', 0)] [()] [] = []"
  by (simp add: hashContains_def hashValue_def MIN_DISTANCE_DUPLICATE_M_def Let_def
        example_defs)

text \<open>
  Claim C7, amended. The fill appends, in the order of the query, the rows that are not
  duplicates; a row is a duplicate, and left out, exactly when its registration is a key
  of the current registrations and its distance to the position recorded there is at
  most \<^verbatim>\<open>MIN_DISTANCE_DUPLICATE_M\<close> (the boundary included). A registration is a key of
  the current registrations exactly when it is not empty and is that of the user aircraft
  or, with the simulator connected or a debug user aircraft, of an AI aircraft.
\<close>

theorem fill_excludes_close_duplicates:
  "fillRects Q G m cur rects lst =
     lst @ filter (\<lambda>aircraft.
              \<not> (hashContains cur (airplaneRegistration aircraft) \<and>
                 distanceMeterTo G (position aircraft)
                   (hashValue (defaultPos G) cur (airplaneRegistration aircraft))
                 \<le> real_of_int (MIN_DISTANCE_DUPLICATE_M G)))
            (map (fillFromClient Q (newAircraft Q)) (concat (map (clientsInRect Q m) rects))) \<and>
   (hashContains (curRegistrations nav) x \<longleftrightarrow>
      x \<noteq> [] \<and>
      (x = airplaneRegistration (userAircraft nav) \<or>
       (connected nav \<or> debug (userAircraft nav)) \<and>
       x \<in> airplaneRegistration ` set (aiAircraft nav)))"
proof
  show "fillRects Q G m cur rects lst =
     lst @ filter (\<lambda>aircraft.
              \<not> (hashContains cur (airplaneRegistration aircraft) \<and>
                 distanceMeterTo G (position aircraft)
                   (hashValue (defaultPos G) cur (airplaneRegistration aircraft))
                 \<le> real_of_int (MIN_DISTANCE_DUPLICATE_M G)))
            (map (fillFromClient Q (newAircraft Q)) (concat (map (clientsInRect Q m) rects)))"
    by (induction rects arbitrary: lst) (simp_all add: fillRows_filter)
  show "hashContains (curRegistrations nav) x \<longleftrightarrow>
      x \<noteq> [] \<and>
      (x = airplaneRegistration (userAircraft nav) \<or>
       (connected nav \<or> debug (userAircraft nav)) \<and>
       x \<in> airplaneRegistration ` set (aiAircraft nav))"
    unfolding hashContains_hashKeys hashKeys_curRegistrations by auto
qed

theorem fill_excludes_close_duplicates_witness:
  "fillRects (exampleStore [(''DLH123'', 55560), (''DLH123'', 55561), (''BAW1'', 5)]) exampleGeo
     True (curRegistrations (exampleNavApp ''DLH123'' [])) [()] [] =
   [exampleAircraft ''DLH123'' 55561 False, exampleAircraft ''BAW1'' 5 False]"
  using fill_excludes_close_duplicates
    [of "exampleStore [(''DLH123'', 55560), (''DLH123'', 55561), (''BAW1'', 5)]" exampleGeo
        True "curRegistrations (exampleNavApp ''DLH123'' [])" "[()]" "[]"
        "exampleNavApp ''DLH123'' []" "''DLH123''"]
  by (simp add: hashContains_def hashValue_def hashInsert_def hashRemove_def
        curRegistrations_def MIN_DISTANCE_DUPLICATE_M_def Let_def example_defs)

text \<open>
  Claim C8. Provided the position a hash table returns for a missing key is not a valid
  one, \<^verbatim>\<open>isShadowAircraft\<close> is true exactly when the simulator aircraft is flagged as an
  online shadow or \<^verbatim>\<open>clientCallsignAndPosMap\<close> has, for its registration, a valid position
  whose distance to the aircraft is strictly below \<^verbatim>\<open>MIN_DISTANCE_DUPLICATE_M\<close>.
  \<^verbatim>\<open>getShadowAircraft\<close> never crashes, and when the store has no client row for the
  registration it returns false and the \<^verbatim>\<open>onlineClient\<close> it was given, unchanged.
\<close>

theorem shadow_resolution:
  assumes "\<not> isValid G (defaultPos G)"
  shows "(isShadowAircraft G s simAircraft \<longleftrightarrow>
       onlineShadow simAircraft \<or>
       (\<exists>pos. map_of (clientCallsignAndPosMap s) (airplaneRegistration simAircraft) = Some pos \<and>
          isValid G pos \<and>
          distanceMeterTo G pos (position simAircraft)
            < real_of_int (MIN_DISTANCE_DUPLICATE_M G))) \<and>
     (getClientRecordsByCallsign Q (manager s) (airplaneRegistration simAircraft) = [] \<longrightarrow>
        getShadowAircraft Q G s onlineClient simAircraft = Some (False, onlineClient)) \<and>
     (\<exists>r. getShadowAircraft Q G s onlineClient simAircraft = Some r)"
proof (intro conjI)
  show "isShadowAircraft G s simAircraft \<longleftrightarrow>
       onlineShadow simAircraft \<or>
       (\<exists>pos. map_of (clientCallsignAndPosMap s) (airplaneRegistration simAircraft) = Some pos \<and>
          isValid G pos \<and>
          distanceMeterTo G pos (position simAircraft)
            < real_of_int (MIN_DISTANCE_DUPLICATE_M G))"
    using assms
    by (auto simp add: isShadowAircraft_def Let_def hashValue_def split: option.splits)
  show "getClientRecordsByCallsign Q (manager s) (airplaneRegistration simAircraft) = [] \<longrightarrow>
        getShadowAircraft Q G s onlineClient simAircraft = Some (False, onlineClient)"
    by (simp add: getShadowAircraft_def)
  show "\<exists>r. getShadowAircraft Q G s onlineClient simAircraft = Some r"
    by (cases "getClientRecordsByCallsign Q (manager s) (airplaneRegistration simAircraft)")
       (auto simp add: getShadowAircraft_def Let_def)
qed

theorem shadow_resolution_witness:
  "isShadowAircraft exampleGeo (exampleController NONE True [(''DLH123'', 1000)] [])
     (exampleAircraft ''DLH123'' 2000 False) \<and>
   getShadowAircraft (exampleStore []) exampleGeo
     (exampleController NONE True [(''DLH123'', 1000)] [])
     (exampleAircraft [] 0 False) (exampleAircraft ''DLH123'' 2000 False) =
     Some (False, exampleAircraft [] 0 False)"
proof -
  have invalid: "\<not> isValid exampleGeo (defaultPos exampleGeo)"
    by (simp add: exampleGeo_def)
  have near: "map_of (clientCallsignAndPosMap (exampleController NONE True [(''DLH123'', 1000)] []))
        (airplaneRegistration (exampleAircraft ''DLH123'' 2000 False)) = Some 1000 \<and>
      isValid exampleGeo 1000 \<and>
      distanceMeterTo exampleGeo 1000 (position (exampleAircraft ''DLH123'' 2000 False))
        < real_of_int (MIN_DISTANCE_DUPLICATE_M exampleGeo)"
    by (simp add: MIN_DISTANCE_DUPLICATE_M_def example_defs)
  have norows: "getClientRecordsByCallsign (exampleStore [])
      (manager (exampleController NONE True [(''DLH123'', 1000)] []))
      (airplaneRegistration (exampleAircraft ''DLH123'' 2000 False)) = []"
    by (simp add: exampleStore_def)
  from shadow_resolution [OF invalid, of "exampleController NONE True [(''DLH123'', 1000)] []"
         "exampleAircraft ''DLH123'' 2000 False" "exampleStore []" "exampleAircraft [] 0 False"]
       near norows
  show ?thesis by blast
qed

text \<open>
  Claim C10. The presentation-time filter removes an online aircraft only if its
  registration is not empty, is a key of the \<^verbatim>\<open>simulatorAiRegistrations\<close> recorded at the
  last cache fill, and is the registration of a simulator aircraft that is flagged as an
  online shadow and lies at a distance of at most \<^verbatim>\<open>MIN_DISTANCE_DUPLICATE_M\<close> (the
  boundary included). An online aircraft with an empty registration, or with one that
  \<^verbatim>\<open>simulatorAiRegistrations\<close> does not have, stays in the list.
\<close>

theorem filterOnlineShadowAircraft_removes_only_shadowed:
  "(\<forall>aircraft \<in> set onlineAircraft.
      aircraft \<notin> set (filterOnlineShadowAircraft G s onlineAircraft simAircraft) \<longrightarrow>
        airplaneRegistration (mapAircraft aircraft) \<noteq> [] \<and>
        hashContains (simulatorAiRegistrations s) (airplaneRegistration (mapAircraft aircraft)) \<and>
        (\<exists>ac \<in> set simAircraft. onlineShadow (mapAircraft ac) \<and>
           airplaneRegistration (mapAircraft ac) = airplaneRegistration (mapAircraft aircraft) \<and>
           distanceMeterTo G (mapPosition aircraft) (mapPosition ac)
             \<le> real_of_int (MIN_DISTANCE_DUPLICATE_M G))) \<and>
   (\<forall>aircraft \<in> set onlineAircraft.
      airplaneRegistration (mapAircraft aircraft) = [] \<or>
      \<not> hashContains (simulatorAiRegistrations s) (airplaneRegistration (mapAircraft aircraft)) \<longrightarrow>
        aircraft \<in> set (filterOnlineShadowAircraft G s onlineAircraft simAircraft))"
proof -
  have removed: "shadowed G (shadowRegistrations (simulatorAiRegistrations s) simAircraft []) aircraft"
    if "aircraft \<in> set onlineAircraft"
      and "aircraft \<notin> set (filterOnlineShadowAircraft G s onlineAircraft simAircraft)"
    for aircraft
    using that by (simp add: filterOnlineShadowAircraft_def Let_def)
  show ?thesis
    using removed shadowed_cases [of G "simulatorAiRegistrations s" simAircraft]
    by blast
qed

theorem filterOnlineShadowAircraft_removes_only_shadowed_witness:
  "exampleMapAircraft [] 0 False \<in> set
     (filterOnlineShadowAircraft exampleGeo (exampleController NONE True [(''DLH123'', 0)] [])
        [exampleMapAircraft ''DLH123'' 55560 False, exampleMapAircraft [] 0 False,
         exampleMapAircraft ''XYZ'' 0 False]
        [exampleMapAircraft ''DLH123'' 0 True, exampleMapAircraft [] 0 True,
         exampleMapAircraft ''XYZ'' 0 True]) \<and>
   exampleMapAircraft ''XYZ'' 0 False \<in> set
     (filterOnlineShadowAircraft exampleGeo (exampleController NONE True [(''DLH123'', 0)] [])
        [exampleMapAircraft ''DLH123'' 55560 False, exampleMapAircraft [] 0 False,
         exampleMapAircraft ''XYZ'' 0 False]
        [exampleMapAircraft ''DLH123'' 0 True, exampleMapAircraft [] 0 True,
         exampleMapAircraft ''XYZ'' 0 True]) \<and>
   filterOnlineShadowAircraft exampleGeo (exampleController NONE True [(''DLH123'', 0)] [])
        [exampleMapAircraft ''DLH123'' 55560 False, exampleMapAircraft [] 0 False,
         exampleMapAircraft ''XYZ'' 0 False]
        [exampleMapAircraft ''DLH123'' 0 True, exampleMapAircraft [] 0 True,
         exampleMapAircraft ''XYZ'' 0 True] =
     [exampleMapAircraft [] 0 False, exampleMapAircraft ''XYZ'' 0 False]"
proof -
  let ?s = "exampleController NONE True [(''DLH123'', 0)] []"
  let ?online = "[exampleMapAircraft ''DLH123'' 55560 False, exampleMapAircraft [] 0 False,
         exampleMapAircraft ''XYZ'' 0 False]"
  let ?sim = "[exampleMapAircraft ''DLH123'' 0 True, exampleMapAircraft [] 0 True,
         exampleMapAircraft ''XYZ'' 0 True]"
  have empty: "exampleMapAircraft [] 0 False \<in> set ?online \<and>
      airplaneRegistration (mapAircraft (exampleMapAircraft [] 0 False)) = []"
    by (simp add: example_defs)
  have unknown: "exampleMapAircraft ''XYZ'' 0 False \<in> set ?online \<and>
      \<not> hashContains (simulatorAiRegistrations ?s)
          (airplaneRegistration (mapAircraft (exampleMapAircraft ''XYZ'' 0 False)))"
    by (simp add: hashContains_def example_defs)
  have result: "filterOnlineShadowAircraft exampleGeo ?s ?online ?sim =
      [exampleMapAircraft [] 0 False, exampleMapAircraft ''XYZ'' 0 False]"
    by (simp add: filterOnlineShadowAircraft_def shadowed_def hashContains_def hashValue_def
          hashInsert_def MIN_DISTANCE_DUPLICATE_M_def Let_def example_defs)
  from filterOnlineShadowAircraft_removes_only_shadowed [of ?online exampleGeo ?s ?sim]
       empty unknown
  have "exampleMapAircraft [] 0 False \<in> set (filterOnlineShadowAircraft exampleGeo ?s ?online ?sim) \<and>
      exampleMapAircraft ''XYZ'' 0 False \<in> set (filterOnlineShadowAircraft exampleGeo ?s ?online ?sim)"
    by blast
  with result show ?thesis by blast
qed

subsection \<open>Facility display sizes\<close>

text \<open>
  Claim C9, as the code has it. Only the diameter \<open>- 1\<close> is the sentinel. A configured
  diameter of \<open>- 2\<close> is below zero, yet the entry is the radius 1 and not \<open>- 1\<close>.
\<close>

theorem negative_diameter_counterexample:
  "configuredDiameter (exampleOptions ONLINE_VATSIM ONLINE_FORMAT_VATSIM 180) fac_GROUND = - 2 \<and>
   map_of (atcSizeMap (exampleOptions ONLINE_VATSIM ONLINE_FORMAT_VATSIM 180)) fac_GROUND = Some 1"
  by (simp add: atcSizeMap_def allFacilityTypes_def exampleOptions_def hashInsert_def
        signed_divide_int_def Let_def)

text \<open>
  Claim C9, amended. \<^verbatim>\<open>updateAtcSizes\<close> hands the manager a size map with an entry for
  every facility type: \<open>- 1\<close> when the configured diameter is the sentinel \<open>- 1\<close> (as
  it always is for \<open>fac_UNKNOWN\<close>), and for every other configured diameter the larger
  of 1 and half the diameter, the division truncating towards zero.
\<close>

theorem atcSizes_entry_for_every_facility_type:
  "map_of (atcSizeMap od) t =
     Some (if configuredDiameter od t = - 1 then - 1
           else max 1 (configuredDiameter od t sdiv 2)) \<and>
   manager (updateAtcSizes M od s) = setAtcSize M (atcSizeMap od) (manager s)"
  by (simp add: atcSizeMap_def atcSizeLoop_lookup allFacilityTypes_complete updateAtcSizes_def)

theorem atcSizes_entry_for_every_facility_type_witness:
  "map_of (atcSizeMap (exampleOptions ONLINE_VATSIM ONLINE_FORMAT_VATSIM 180)) fac_ACC = Some 100 \<and>
   map_of (atcSizeMap (exampleOptions ONLINE_VATSIM ONLINE_FORMAT_VATSIM 180)) fac_OBSERVER =
     Some (- 1) \<and>
   map_of (atcSizeMap (exampleOptions ONLINE_VATSIM ONLINE_FORMAT_VATSIM 180)) fac_DEPARTURE =
     Some 1"
  using atcSizes_entry_for_every_facility_type
          [of "exampleOptions ONLINE_VATSIM ONLINE_FORMAT_VATSIM 180" fac_ACC, THEN conjunct1]
        atcSizes_entry_for_every_facility_type
          [of "exampleOptions ONLINE_VATSIM ONLINE_FORMAT_VATSIM 180" fac_OBSERVER, THEN conjunct1]
        atcSizes_entry_for_every_facility_type
          [of "exampleOptions ONLINE_VATSIM ONLINE_FORMAT_VATSIM 180" fac_DEPARTURE, THEN conjunct1]
  by (simp add: exampleOptions_def signed_divide_int_def)

end
